theory Spec2Isabelle
  imports Complex_Main
begin

section \<open>The tax engine of src/lib/taxUtils.ts\<close>

text \<open>
  The engine computes Indian income tax for FY 2024-25: slab tax, the rebate of
  section 87A, the surcharge with its marginal relief, and the cess.

  A TypeScript \<open>number\<close> is modelled as an exact rational (\<open>rat\<close>): the amounts
  and rates of the tables are decimal fractions, and the properties below are
  those of the arithmetic the code writes down, not of its binary rounding.
  The one value of \<open>number\<close> that the tables use and \<open>rat\<close> lacks, \<open>Infinity\<close>,
  is a constructor of its own.
\<close>

subsection \<open>Data\<close>

datatype limit = Fin rat | Infinity

datatype regime = New | Old

record Slab =
  rangeMin :: rat
  rangeMax :: limit
  rate :: rat

text \<open>Optional fields (\<open>rebateLimit?: number\<close>) are \<open>rat option\<close>, \<open>None\<close> for undefined.\<close>

record TaxRegimeData =
  slabs :: "Slab list"
  basicExemption :: rat
  rebateLimit :: "rat option"
  rebateAmount :: "rat option"
  standardDeduction :: "rat option"

record FiscalYearTaxData =
  newRegime :: TaxRegimeData
  oldRegime :: TaxRegimeData

text \<open>A row of \<open>surchargeRatesFY2024_25\<close>; its rate field is \<open>srate\<close>, the name \<open>rate\<close>
  being the slab's.\<close>

record SurchargeRate =
  incomeLimit :: limit
  srate :: rat
  capForSpecialIncome :: rat
  capForNewRegime :: rat

text \<open>The object that \<open>calculateTaxPayableInternal\<close> returns.\<close>

record TaxComputationResult =
  taxableIncome :: rat
  taxBeforeRebate :: rat
  rebate :: rat
  taxAfterRebate :: rat
  surcharge :: rat
  cess :: rat
  totalTax :: rat
  taxBeforeCess :: rat

subsection \<open>Configuration tables\<close>

definition surchargeRatesFY2024_25 :: "SurchargeRate list" where
  "surchargeRatesFY2024_25 =
    [ \<lparr>incomeLimit = Fin 5000000, srate = 0, capForSpecialIncome = 0, capForNewRegime = 0\<rparr>,
      \<lparr>incomeLimit = Fin 10000000, srate = 1/10, capForSpecialIncome = 1/10,
         capForNewRegime = 1/10\<rparr>,
      \<lparr>incomeLimit = Fin 20000000, srate = 15/100, capForSpecialIncome = 15/100,
         capForNewRegime = 15/100\<rparr>,
      \<lparr>incomeLimit = Fin 50000000, srate = 25/100, capForSpecialIncome = 15/100,
         capForNewRegime = 25/100\<rparr>,
      \<lparr>incomeLimit = Infinity, srate = 37/100, capForSpecialIncome = 15/100,
         capForNewRegime = 25/100\<rparr> ]"

definition CESS_RATE :: rat where
  "CESS_RATE = 4/100"

definition taxDataFY2024_25 :: FiscalYearTaxData where
  "taxDataFY2024_25 =
    \<lparr>newRegime =
       \<lparr>slabs =
          [ \<lparr>rangeMin = 0, rangeMax = Fin 300000, rate = 0\<rparr>,
            \<lparr>rangeMin = 300001, rangeMax = Fin 600000, rate = 5/100\<rparr>,
            \<lparr>rangeMin = 600001, rangeMax = Fin 900000, rate = 1/10\<rparr>,
            \<lparr>rangeMin = 900001, rangeMax = Fin 1200000, rate = 15/100\<rparr>,
            \<lparr>rangeMin = 1200001, rangeMax = Fin 1500000, rate = 2/10\<rparr>,
            \<lparr>rangeMin = 1500001, rangeMax = Infinity, rate = 3/10\<rparr> ],
        basicExemption = 300000,
        rebateLimit = Some 700000,
        rebateAmount = Some 25000,
        standardDeduction = Some 50000\<rparr>,
     oldRegime =
       \<lparr>slabs =
          [ \<lparr>rangeMin = 0, rangeMax = Fin 250000, rate = 0\<rparr>,
            \<lparr>rangeMin = 250001, rangeMax = Fin 500000, rate = 5/100\<rparr>,
            \<lparr>rangeMin = 500001, rangeMax = Fin 1000000, rate = 2/10\<rparr>,
            \<lparr>rangeMin = 1000001, rangeMax = Infinity, rate = 3/10\<rparr> ],
        basicExemption = 250000,
        rebateLimit = Some 500000,
        rebateAmount = Some 12500,
        standardDeduction = Some 50000\<rparr>\<rparr>"

subsection \<open>Arithmetic of \<open>number\<close>\<close>

text \<open>\<open>x <= l\<close> and \<open>Math.min(x, l)\<close> for a finite \<open>x\<close> and a possibly infinite \<open>l\<close>.\<close>

fun le_limit :: "rat \<Rightarrow> limit \<Rightarrow> bool" where
  "le_limit x (Fin m) = (x \<le> m)"
| "le_limit x Infinity = True"

fun min_limit :: "rat \<Rightarrow> limit \<Rightarrow> rat" where
  "min_limit x (Fin m) = min x m"
| "min_limit x Infinity = x"

text \<open>JavaScript truthiness of an optional number: undefined and 0 are falsy.\<close>

fun truthy :: "rat option \<Rightarrow> bool" where
  "truthy None = False"
| "truthy (Some v) = (v \<noteq> 0)"

text \<open>\<open>Math.round\<close>: the nearest integer, a half rounding up.\<close>

definition Math_round :: "rat \<Rightarrow> rat" where
  "Math_round x = of_int \<lfloor>x + 1/2\<rfloor>"

subsection \<open>calculateSlabTax\<close>

text \<open>
  The body of the \<open>for\<close> loop over the slabs, with the loop variables \<open>tax\<close> and
  \<open>incomeProcessed\<close> as arguments (\<open>income\<close> is the parameter \<open>taxableIncome\<close>,
  a name that the result record takes). The loop goes on to the next slab only when
  \<open>income > slabMax\<close>, which a finite income satisfies for a finite
  \<open>slabMax\<close> alone: so \<open>incomeProcessed\<close> is finite whenever it is read.
\<close>

fun slabLoop :: "rat \<Rightarrow> Slab list \<Rightarrow> rat \<Rightarrow> rat \<Rightarrow> rat" where
  "slabLoop income [] tax incomeProcessed = tax"
| "slabLoop income (slab # rest) tax incomeProcessed =
     (let slabMin = (if rangeMin slab = 0 then 0 else rangeMin slab - 1);
          slabMax = rangeMax slab
      in if income \<le> slabMin then tax
         else
           let incomeInSlab = min_limit income slabMax - max incomeProcessed slabMin;
               tax' = (if incomeInSlab > 0 then tax + incomeInSlab * rate slab else tax)
           in case slabMax of
                Infinity \<Rightarrow> tax'
              | Fin m \<Rightarrow> if income \<le> m then tax'
                         else slabLoop income rest tax' m)"

definition calculateSlabTax :: "rat \<Rightarrow> Slab list \<Rightarrow> rat" where
  "calculateSlabTax income slabList = max 0 (slabLoop income slabList 0 0)"

subsection \<open>calculateSurcharge and calculateTaxPayableInternal\<close>

text \<open>The first loop of \<open>calculateSurcharge\<close>: the rate of the tier of \<open>totalIncome\<close>.\<close>

fun rateLoop :: "SurchargeRate list \<Rightarrow> rat \<Rightarrow> regime \<Rightarrow> rat \<Rightarrow> rat" where
  "rateLoop [] totalIncome regime applicableRate = applicableRate"
| "rateLoop (rateInfo # rest) totalIncome regime applicableRate =
     (if le_limit totalIncome (incomeLimit rateInfo)
      then (if regime = New then min (srate rateInfo) (capForNewRegime rateInfo)
            else srate rateInfo)
      else if incomeLimit rateInfo = Infinity
      then rateLoop rest totalIncome regime
             (if regime = New then min (srate rateInfo) (capForNewRegime rateInfo)
              else srate rateInfo)
      else rateLoop rest totalIncome regime applicableRate)"

text \<open>
  The test of the second loop: \<open>totalIncome\<close> lies in the window
  \<open>(threshold, threshold * 1.05]\<close> of a finite, non-zero threshold.
\<close>

fun inWindow :: "rat \<Rightarrow> limit \<Rightarrow> bool" where
  "inWindow totalIncome Infinity = False"
| "inWindow totalIncome (Fin threshold) =
     (threshold \<noteq> 0 \<and> totalIncome > threshold \<and> totalIncome \<le> threshold * (105/100))"

text \<open>
  Steps 1 to 4 of \<open>calculateTaxPayableInternal\<close> and the first half of step 5, which
  call nothing recursive: they return \<open>taxableIncome\<close>, \<open>taxBeforeRebate\<close>, \<open>rebate\<close>,
  \<open>taxAfterRebate\<close> and \<open>incomeForSurchargeRate\<close>, in this order. The \<open>if\<close> of step 5
  has an empty Old branch, so the Old regime keeps \<open>grossIncome\<close>. The local names
  carry a digit where the source reuses the name of a field of the result.
\<close>

definition beforeSurcharge :: "rat \<Rightarrow> rat \<Rightarrow> regime \<Rightarrow> FiscalYearTaxData \<Rightarrow> rat \<times> rat \<times> rat \<times> rat \<times> rat" where
  "beforeSurcharge grossIncome totalDeductions regime taxData =
     (let regimeData = (if regime = New then newRegime taxData else oldRegime taxData);
          incomeAfterStdDed =
            (if truthy (standardDeduction regimeData) \<and> grossIncome > 0
             then max 0 (grossIncome - the (standardDeduction regimeData))
             else grossIncome);
          taxableIncome0 =
            (if regime = Old then max 0 (incomeAfterStdDed - totalDeductions)
             else incomeAfterStdDed);
          taxableIncome1 = max 0 taxableIncome0;
          taxBeforeRebate1 = calculateSlabTax taxableIncome1 (slabs regimeData);
          rebate1 =
            (if truthy (rebateLimit regimeData)
                \<and> taxableIncome1 \<le> the (rebateLimit regimeData)
                \<and> truthy (rebateAmount regimeData)
             then min taxBeforeRebate1 (the (rebateAmount regimeData)) else 0);
          taxAfterRebate1 = max 0 (taxBeforeRebate1 - rebate1);
          incomeForSurchargeRate1 = (if regime = Old then grossIncome else incomeAfterStdDed)
      in (taxableIncome1, taxBeforeRebate1, rebate1, taxAfterRebate1, incomeForSurchargeRate1))"

text \<open>The measure of the mutual recursion: a call at an income inside a relief window
  is above the nested call at the threshold, which is inside none.\<close>

definition anyWindow :: "rat \<Rightarrow> bool" where
  "anyWindow totalIncome = list_ex (\<lambda>r. inWindow totalIncome (incomeLimit r)) surchargeRatesFY2024_25"

definition surchargeMeasure :: "rat \<Rightarrow> nat" where
  "surchargeMeasure totalIncome = (if anyWindow totalIncome then 30 else 10)"

definition taxMeasure :: "rat \<Rightarrow> rat \<Rightarrow> regime \<Rightarrow> FiscalYearTaxData \<Rightarrow> nat" where
  "taxMeasure grossIncome totalDeductions regime taxData =
     (case beforeSurcharge grossIncome totalDeductions regime taxData of
        (_, _, _, _, incomeForSurchargeRate1) \<Rightarrow> surchargeMeasure incomeForSurchargeRate1 + 1)"

fun reliefMeasure :: "SurchargeRate list \<Rightarrow> rat \<Rightarrow> regime \<Rightarrow> nat" where
  "reliefMeasure [] totalIncome regime = 0"
| "reliefMeasure (rateInfo # rest) totalIncome regime =
     1 + max (case incomeLimit rateInfo of
                Infinity \<Rightarrow> 0
              | Fin threshold \<Rightarrow>
                  if inWindow totalIncome (Fin threshold)
                  then taxMeasure threshold 0 regime taxDataFY2024_25 + 1 else 0)
             (reliefMeasure rest totalIncome regime)"

text \<open>The measure on the three kinds of call: \<open>calculateSurcharge\<close>, its relief
  loop, \<open>calculateTaxPayableInternal\<close>.\<close>

definition callMeasure ::
  "rat \<times> rat \<times> regime + (SurchargeRate list \<times> rat \<times> rat \<times> rat \<times> regime)
     + rat \<times> rat \<times> regime \<times> FiscalYearTaxData \<Rightarrow> nat" where
  "callMeasure c =
     (case c of
        Inl (totalIncome, _, _) \<Rightarrow> surchargeMeasure totalIncome
      | Inr (Inl (rs, totalIncome, _, _, regime)) \<Rightarrow> reliefMeasure rs totalIncome regime
      | Inr (Inr (grossIncome, totalDeductions, regime, taxData)) \<Rightarrow>
          taxMeasure grossIncome totalDeductions regime taxData)"

text \<open>
  \<open>calculateSurcharge\<close> and \<open>calculateTaxPayableInternal\<close> call each other.
  \<open>reliefLoop\<close> is the second \<open>for\<close> loop of \<open>calculateSurcharge\<close> (marginal
  relief), with the loop variable \<open>surcharge\<close> as the argument \<open>sur\<close>; it holds the
  call of \<open>calculateTaxPayableInternal\<close> at the threshold.
  \<open>calculateTaxPayableInternal\<close> goes on from \<open>beforeSurcharge\<close> with the call of
  \<open>calculateSurcharge\<close> and steps 6 and 7.
\<close>

function calculateSurcharge :: "rat \<Rightarrow> rat \<Rightarrow> regime \<Rightarrow> rat"
  and reliefLoop :: "SurchargeRate list \<Rightarrow> rat \<Rightarrow> rat \<Rightarrow> rat \<Rightarrow> regime \<Rightarrow> rat"
  and calculateTaxPayableInternal ::
    "rat \<Rightarrow> rat \<Rightarrow> regime \<Rightarrow> FiscalYearTaxData \<Rightarrow> TaxComputationResult"
where
  "calculateSurcharge totalIncome taxBeforeSurcharge regime =
     (if taxBeforeSurcharge \<le> 0 then 0
      else
        let applicableRate = rateLoop surchargeRatesFY2024_25 totalIncome regime 0;
            sur = taxBeforeSurcharge * applicableRate
        in max 0 (reliefLoop surchargeRatesFY2024_25 totalIncome taxBeforeSurcharge sur regime))"
| "reliefLoop [] totalIncome taxBeforeSurcharge sur regime = sur"
| "reliefLoop (rateInfo # rest) totalIncome taxBeforeSurcharge sur regime =
     (case incomeLimit rateInfo of
        Infinity \<Rightarrow> reliefLoop rest totalIncome taxBeforeSurcharge sur regime
      | Fin threshold \<Rightarrow>
          if inWindow totalIncome (Fin threshold)
          then
            let taxOnThreshold =
                  taxBeforeCess
                    (calculateTaxPayableInternal threshold 0 regime taxDataFY2024_25);
                taxIncrease = taxBeforeSurcharge + sur - taxOnThreshold;
                incomeIncrease = totalIncome - threshold
            in if taxIncrease > incomeIncrease
               then max 0 (sur - (taxIncrease - incomeIncrease))
               else reliefLoop rest totalIncome taxBeforeSurcharge sur regime
          else reliefLoop rest totalIncome taxBeforeSurcharge sur regime)"
| "calculateTaxPayableInternal grossIncome totalDeductions regime taxData =
     (case beforeSurcharge grossIncome totalDeductions regime taxData of
        (taxableIncome1, taxBeforeRebate1, rebate1, taxAfterRebate1, incomeForSurchargeRate1) \<Rightarrow>
      let surcharge1 = calculateSurcharge incomeForSurchargeRate1 taxAfterRebate1 regime;
          taxBeforeCess1 = taxAfterRebate1 + surcharge1;
          cess1 = taxBeforeCess1 * CESS_RATE;
          totalTax1 = taxBeforeCess1 + cess1
      in \<lparr>taxableIncome = taxableIncome1,
          taxBeforeRebate = taxBeforeRebate1,
          rebate = rebate1,
          taxAfterRebate = taxAfterRebate1,
          surcharge = surcharge1,
          cess = cess1,
          totalTax = Math_round totalTax1,
          taxBeforeCess = taxBeforeCess1\<rparr>)"
  by pat_completeness auto

termination
proof -
  have at_threshold: "taxMeasure threshold 0 regime taxDataFY2024_25 = 11"
    if "threshold \<in> {5000000, 10000000, 20000000, 50000000}" for threshold regime
    using that
    by (cases regime)
       (auto simp: taxMeasure_def beforeSurcharge_def taxDataFY2024_25_def Let_def
          surchargeMeasure_def anyWindow_def surchargeRatesFY2024_25_def)
  have rates: "reliefMeasure surchargeRatesFY2024_25 totalIncome regime
      < surchargeMeasure totalIncome" for totalIncome regime
    by (simp add: surchargeRatesFY2024_25_def at_threshold surchargeMeasure_def anyWindow_def)
  have tax: "surchargeMeasure x8 < taxMeasure grossIncome totalDeductions regime taxData"
    if "(x1, x2) = beforeSurcharge grossIncome totalDeductions regime taxData"
      "(x3, x4) = x2" "(x5, x6) = x4" "(x7, x8) = x6"
    for grossIncome totalDeductions regime taxData x1 x2 x3 x4 x5 x6 x7 x8
  proof -
    from that
    have "beforeSurcharge grossIncome totalDeductions regime taxData = (x1, x3, x5, x7, x8)"
      by simp
    then show ?thesis
      by (simp add: taxMeasure_def)
  qed
  show ?thesis
    by (relation "measure callMeasure") (simp_all add: callMeasure_def rates tax)
qed

subsection \<open>calculateTaxPayable\<close>

text \<open>The exported function. Its parameter \<open>totalDeductions\<close> has the default 0 in
  TypeScript; here a caller that leaves it out passes 0.\<close>

definition calculateTaxPayable :: "rat \<Rightarrow> rat \<Rightarrow> regime \<Rightarrow> TaxComputationResult" where
  "calculateTaxPayable grossIncome totalDeductions regime =
     calculateTaxPayableInternal grossIncome totalDeductions regime taxDataFY2024_25"

subsection \<open>The tier thresholds and the value compared in the relief\<close>

text \<open>The thresholds that the relief loop does not skip: finite and non-zero.\<close>

fun reliefThresholds :: "SurchargeRate list \<Rightarrow> rat list" where
  "reliefThresholds [] = []"
| "reliefThresholds (rateInfo # rest) =
     (case incomeLimit rateInfo of
        Infinity \<Rightarrow> reliefThresholds rest
      | Fin threshold \<Rightarrow>
          if threshold = 0 then reliefThresholds rest else threshold # reliefThresholds rest)"

text \<open>The expression that the relief loop binds to \<open>taxOnThreshold\<close>.\<close>

definition taxOnThreshold :: "rat \<Rightarrow> regime \<Rightarrow> rat" where
  "taxOnThreshold threshold regime =
     taxBeforeCess (calculateTaxPayableInternal threshold 0 regime taxDataFY2024_25)"

subsection \<open>The same functions with the depth of the calls counted\<close>

text \<open>
  The three functions once more, with a bound \<open>n\<close> on how many calls of
  \<open>calculateTaxPayableInternal\<close> may be open at once: a call beyond the bound
  yields \<open>None\<close>, which every caller hands on. With the bound large enough the
  result is that of the functions above.
\<close>

fun calculateSurchargeD :: "nat \<Rightarrow> rat \<Rightarrow> rat \<Rightarrow> regime \<Rightarrow> rat option"
  and reliefLoopD ::
    "nat \<Rightarrow> SurchargeRate list \<Rightarrow> rat \<Rightarrow> rat \<Rightarrow> rat \<Rightarrow> regime \<Rightarrow> rat option"
  and calculateTaxPayableInternalD ::
    "nat \<Rightarrow> rat \<Rightarrow> rat \<Rightarrow> regime \<Rightarrow> FiscalYearTaxData \<Rightarrow> TaxComputationResult option"
where
  "calculateSurchargeD n totalIncome taxBeforeSurcharge regime =
     (if taxBeforeSurcharge \<le> 0 then Some 0
      else
        let applicableRate = rateLoop surchargeRatesFY2024_25 totalIncome regime 0;
            sur = taxBeforeSurcharge * applicableRate
        in map_option (max 0)
             (reliefLoopD n surchargeRatesFY2024_25 totalIncome taxBeforeSurcharge sur regime))"
| "reliefLoopD n [] totalIncome taxBeforeSurcharge sur regime = Some sur"
| "reliefLoopD n (rateInfo # rest) totalIncome taxBeforeSurcharge sur regime =
     (case incomeLimit rateInfo of
        Infinity \<Rightarrow> reliefLoopD n rest totalIncome taxBeforeSurcharge sur regime
      | Fin threshold \<Rightarrow>
          if inWindow totalIncome (Fin threshold)
          then
            case calculateTaxPayableInternalD n threshold 0 regime taxDataFY2024_25 of
              None \<Rightarrow> None
            | Some onThreshold \<Rightarrow>
                let taxIncrease = taxBeforeSurcharge + sur - taxBeforeCess onThreshold;
                    incomeIncrease = totalIncome - threshold
                in if taxIncrease > incomeIncrease
                   then Some (max 0 (sur - (taxIncrease - incomeIncrease)))
                   else reliefLoopD n rest totalIncome taxBeforeSurcharge sur regime
          else reliefLoopD n rest totalIncome taxBeforeSurcharge sur regime)"
| "calculateTaxPayableInternalD 0 grossIncome totalDeductions regime taxData = None"
| "calculateTaxPayableInternalD (Suc n) grossIncome totalDeductions regime taxData =
     (case beforeSurcharge grossIncome totalDeductions regime taxData of
        (taxableIncome1, taxBeforeRebate1, rebate1, taxAfterRebate1, incomeForSurchargeRate1) \<Rightarrow>
      case calculateSurchargeD n incomeForSurchargeRate1 taxAfterRebate1 regime of
        None \<Rightarrow> None
      | Some surcharge1 \<Rightarrow>
          let taxBeforeCess1 = taxAfterRebate1 + surcharge1;
              cess1 = taxBeforeCess1 * CESS_RATE;
              totalTax1 = taxBeforeCess1 + cess1
          in Some \<lparr>taxableIncome = taxableIncome1,
               taxBeforeRebate = taxBeforeRebate1,
               rebate = rebate1,
               taxAfterRebate = taxAfterRebate1,
               surcharge = surcharge1,
               cess = cess1,
               totalTax = Math_round totalTax1,
               taxBeforeCess = taxBeforeCess1\<rparr>)"

section \<open>Lemmas on rounding, the tables and the surcharge\<close>

text \<open>The recursive equations are unfolded by hand, one call at a time.\<close>

declare calculateSurcharge.simps [simp del] reliefLoop.simps [simp del]
  calculateTaxPayableInternal.simps [simp del]

subsection \<open>Rounding\<close>

lemma Math_round_eqI:
  "of_int k \<le> x + 1/2 \<Longrightarrow> x + 1/2 < of_int k + 1 \<Longrightarrow> Math_round x = of_int k"
  unfolding Math_round_def by (simp add: floor_unique)

lemma Math_round_of_int: "Math_round (of_int k) = of_int k"
  by (rule Math_round_eqI) simp_all

lemma Math_round_numeral [simp]: "Math_round (numeral n) = numeral n" "Math_round 0 = 0"
  using Math_round_of_int [of "numeral n"] Math_round_of_int [of 0] by simp_all

lemma Math_round_mono: "x \<le> y \<Longrightarrow> Math_round x \<le> Math_round y"
  unfolding Math_round_def by (simp add: floor_mono)

lemma Math_round_bounds: "x - 1/2 < Math_round x" "Math_round x \<le> x + 1/2"
  unfolding Math_round_def by linarith+

lemma Math_round_nonneg: "0 \<le> x \<Longrightarrow> 0 \<le> Math_round x"
  unfolding Math_round_def by simp


subsection \<open>The tables in closed form\<close>


lemma slabTax_old:
  "calculateSlabTax x (slabs (oldRegime taxDataFY2024_25)) =
     (if x \<le> 250000 then 0
      else if x \<le> 500000 then (x - 250000) * (5/100)
      else if x \<le> 1000000 then 12500 + (x - 500000) * (2/10)
      else 112500 + (x - 1000000) * (3/10))"
  by (simp add: calculateSlabTax_def taxDataFY2024_25_def Let_def)

lemma slabTax_new:
  "calculateSlabTax x (slabs (newRegime taxDataFY2024_25)) =
     (if x \<le> 300000 then 0
      else if x \<le> 600000 then (x - 300000) * (5/100)
      else if x \<le> 900000 then 15000 + (x - 600000) * (1/10)
      else if x \<le> 1200000 then 45000 + (x - 900000) * (15/100)
      else if x \<le> 1500000 then 90000 + (x - 1200000) * (2/10)
      else 150000 + (x - 1500000) * (3/10))"
  by (simp add: calculateSlabTax_def taxDataFY2024_25_def Let_def)

lemma rateLoop_table:
  "rateLoop surchargeRatesFY2024_25 x regime 0 =
     (if x \<le> 5000000 then 0
      else if x \<le> 10000000 then 1/10
      else if x \<le> 20000000 then 15/100
      else if x \<le> 50000000 then 25/100
      else if regime = New then 25/100 else 37/100)"
  by (simp add: surchargeRatesFY2024_25_def)

lemma taxData_fields:
  "standardDeduction (newRegime taxDataFY2024_25) = Some 50000"
  "standardDeduction (oldRegime taxDataFY2024_25) = Some 50000"
  "rebateLimit (newRegime taxDataFY2024_25) = Some 700000"
  "rebateLimit (oldRegime taxDataFY2024_25) = Some 500000"
  "rebateAmount (newRegime taxDataFY2024_25) = Some 25000"
  "rebateAmount (oldRegime taxDataFY2024_25) = Some 12500"
  by (simp_all add: taxDataFY2024_25_def)

lemma rateLoop_nonneg: "0 \<le> rateLoop surchargeRatesFY2024_25 x regime 0"
  by (simp add: rateLoop_table)


lemma beforeSurcharge_threshold_Old:
  "beforeSurcharge 5000000 0 Old taxDataFY2024_25 = (4950000, 1297500, 0, 1297500, 5000000)"
  "beforeSurcharge 10000000 0 Old taxDataFY2024_25 = (9950000, 2797500, 0, 2797500, 10000000)"
  "beforeSurcharge 20000000 0 Old taxDataFY2024_25 = (19950000, 5797500, 0, 5797500, 20000000)"
  "beforeSurcharge 50000000 0 Old taxDataFY2024_25 = (49950000, 14797500, 0, 14797500, 50000000)"
  by (simp_all add: beforeSurcharge_def taxData_fields slabTax_old Let_def)

lemma beforeSurcharge_threshold_New:
  "beforeSurcharge 5000000 0 New taxDataFY2024_25 = (4950000, 1185000, 0, 1185000, 4950000)"
  "beforeSurcharge 10000000 0 New taxDataFY2024_25 = (9950000, 2685000, 0, 2685000, 9950000)"
  "beforeSurcharge 20000000 0 New taxDataFY2024_25 = (19950000, 5685000, 0, 5685000, 19950000)"
  "beforeSurcharge 50000000 0 New taxDataFY2024_25 = (49950000, 14685000, 0, 14685000, 49950000)"
  by (simp_all add: beforeSurcharge_def taxData_fields slabTax_new Let_def)

lemma reliefLoop_outside:
  "\<not> anyWindow x \<Longrightarrow> reliefLoop surchargeRatesFY2024_25 x tbs s regime = s"
  by (auto simp: anyWindow_def surchargeRatesFY2024_25_def reliefLoop.simps)

lemma calculateSurcharge_outside:
  "\<not> anyWindow x \<Longrightarrow> 0 < tbs \<Longrightarrow>
     calculateSurcharge x tbs regime = tbs * rateLoop surchargeRatesFY2024_25 x regime 0"
  using rateLoop_nonneg [of x regime]
  by (simp add: calculateSurcharge.simps reliefLoop_outside Let_def)

lemma not_anyWindow_thresholds:
  "\<not> anyWindow 5000000" "\<not> anyWindow 10000000" "\<not> anyWindow 20000000"
  "\<not> anyWindow 50000000" "\<not> anyWindow 4950000" "\<not> anyWindow 9950000"
  "\<not> anyWindow 19950000" "\<not> anyWindow 49950000"
  by (simp_all add: anyWindow_def surchargeRatesFY2024_25_def)

lemma result_fields:
  assumes "beforeSurcharge g d regime taxData = (ti, tbr, rb, tar, base)"
  shows "taxableIncome (calculateTaxPayableInternal g d regime taxData) = ti"
    and "taxBeforeRebate (calculateTaxPayableInternal g d regime taxData) = tbr"
    and "rebate (calculateTaxPayableInternal g d regime taxData) = rb"
    and "taxAfterRebate (calculateTaxPayableInternal g d regime taxData) = tar"
    and "surcharge (calculateTaxPayableInternal g d regime taxData)
           = calculateSurcharge base tar regime"
    and "taxBeforeCess (calculateTaxPayableInternal g d regime taxData)
           = tar + calculateSurcharge base tar regime"
    and "cess (calculateTaxPayableInternal g d regime taxData)
           = (tar + calculateSurcharge base tar regime) * CESS_RATE"
    and "totalTax (calculateTaxPayableInternal g d regime taxData)
           = Math_round ((tar + calculateSurcharge base tar regime)
               + (tar + calculateSurcharge base tar regime) * CESS_RATE)"
  using assms by (simp_all add: calculateTaxPayableInternal.simps Let_def)

lemma taxOnThreshold_Old:
  "taxOnThreshold 5000000 Old = 1297500"
  "taxOnThreshold 10000000 Old = 3077250"
  "taxOnThreshold 20000000 Old = 6667125"
  "taxOnThreshold 50000000 Old = 18496875"
  by (simp_all add: taxOnThreshold_def result_fields(6) [OF beforeSurcharge_threshold_Old(1)]
        result_fields(6) [OF beforeSurcharge_threshold_Old(2)]
        result_fields(6) [OF beforeSurcharge_threshold_Old(3)]
        result_fields(6) [OF beforeSurcharge_threshold_Old(4)]
        calculateSurcharge_outside not_anyWindow_thresholds rateLoop_table)

lemma taxOnThreshold_New:
  "taxOnThreshold 5000000 New = 1185000"
  "taxOnThreshold 10000000 New = 2953500"
  "taxOnThreshold 20000000 New = 6537750"
  "taxOnThreshold 50000000 New = 18356250"
  by (simp_all add: taxOnThreshold_def result_fields(6) [OF beforeSurcharge_threshold_New(1)]
        result_fields(6) [OF beforeSurcharge_threshold_New(2)]
        result_fields(6) [OF beforeSurcharge_threshold_New(3)]
        result_fields(6) [OF beforeSurcharge_threshold_New(4)]
        calculateSurcharge_outside not_anyWindow_thresholds rateLoop_table)

subsection \<open>The surcharge inside and outside a relief window\<close>

lemma reliefLoop_step:
  "reliefLoop (\<lparr>incomeLimit = Fin T, srate = a, capForSpecialIncome = b, capForNewRegime = c\<rparr> # rest)
     x tbs s regime =
   (if T \<noteq> 0 \<and> T < x \<and> x \<le> T * (105/100) \<and> tbs + s - taxOnThreshold T regime > x - T
    then max 0 (s - (tbs + s - taxOnThreshold T regime - (x - T)))
    else reliefLoop rest x tbs s regime)"
  by (simp add: reliefLoop.simps Let_def taxOnThreshold_def)

lemma reliefLoop_last:
  "reliefLoop [\<lparr>incomeLimit = Infinity, srate = a, capForSpecialIncome = b, capForNewRegime = c\<rparr>]
     x tbs s regime = s"
  by (simp add: reliefLoop.simps)

lemma reliefLoop_table:
  "reliefLoop surchargeRatesFY2024_25 x tbs s regime =
     (if 5000000 < x \<and> x \<le> 5250000 \<and> tbs + s - taxOnThreshold 5000000 regime > x - 5000000
      then max 0 (s - (tbs + s - taxOnThreshold 5000000 regime - (x - 5000000)))
      else if 10000000 < x \<and> x \<le> 10500000
              \<and> tbs + s - taxOnThreshold 10000000 regime > x - 10000000
      then max 0 (s - (tbs + s - taxOnThreshold 10000000 regime - (x - 10000000)))
      else if 20000000 < x \<and> x \<le> 21000000
              \<and> tbs + s - taxOnThreshold 20000000 regime > x - 20000000
      then max 0 (s - (tbs + s - taxOnThreshold 20000000 regime - (x - 20000000)))
      else if 50000000 < x \<and> x \<le> 52500000
              \<and> tbs + s - taxOnThreshold 50000000 regime > x - 50000000
      then max 0 (s - (tbs + s - taxOnThreshold 50000000 regime - (x - 50000000)))
      else s)"
  unfolding surchargeRatesFY2024_25_def reliefLoop_step reliefLoop_last
  by simp

text \<open>Tax plus surcharge, as \<open>calculateTaxPayableInternal\<close> adds them.\<close>

lemma withSurcharge_outside:
  assumes "\<not> anyWindow x" "0 \<le> tbs"
  shows "tbs + calculateSurcharge x tbs regime
           = tbs * (1 + rateLoop surchargeRatesFY2024_25 x regime 0)"
proof (cases "tbs = 0")
  case True
  then show ?thesis by (simp add: calculateSurcharge.simps)
next
  case False
  with assms have "0 < tbs" by simp
  with assms show ?thesis
    by (simp add: calculateSurcharge_outside algebra_simps)
qed

lemma withSurcharge_window:
  assumes "T \<in> {5000000, 10000000, 20000000, 50000000}" "T < x" "x \<le> T * (105/100)" "0 \<le> tbs"
  shows "tbs + calculateSurcharge x tbs regime
           = min (tbs * (1 + rateLoop surchargeRatesFY2024_25 x regime 0))
                 (max tbs (taxOnThreshold T regime + (x - T)))"
proof (cases "tbs = 0")
  case True
  have "0 \<le> taxOnThreshold T regime" using assms(1)
    by (cases regime) (auto simp: taxOnThreshold_Old taxOnThreshold_New)
  with True assms show ?thesis by (simp add: calculateSurcharge.simps)
next
  case False
  with assms have pos: "0 < tbs" by simp
  define r where "r = rateLoop surchargeRatesFY2024_25 x regime 0"
  have r: "0 \<le> r" by (simp add: r_def rateLoop_nonneg)
  then have s: "0 \<le> tbs * r" using pos by simp
  have "calculateSurcharge x tbs regime
      = max 0 (reliefLoop surchargeRatesFY2024_25 x tbs (tbs * r) regime)"
    using pos by (simp add: calculateSurcharge.simps Let_def r_def)
  also have "\<dots> = (if tbs + tbs * r - taxOnThreshold T regime > x - T
      then max 0 (tbs * r - (tbs + tbs * r - taxOnThreshold T regime - (x - T))) else tbs * r)"
    using assms(1-3) s by (auto simp: reliefLoop_table)
  finally show ?thesis
    using s by (auto simp: r_def [symmetric] algebra_simps min_def max_def)
qed

lemma anyWindow_iff:
  "anyWindow x \<longleftrightarrow> 5000000 < x \<and> x \<le> 5250000 \<or> 10000000 < x \<and> x \<le> 10500000
     \<or> 20000000 < x \<and> x \<le> 21000000 \<or> 50000000 < x \<and> x \<le> 52500000"
  by (simp add: anyWindow_def surchargeRatesFY2024_25_def)

section \<open>Results on calculateTaxPayable\<close>

subsection \<open>A scenario, and the deductions of the New regime\<close>

lemma beforeSurcharge_1200000:
  "beforeSurcharge 1200000 0 New taxDataFY2024_25 = (1150000, 82500, 0, 82500, 1150000)"
  by (simp add: beforeSurcharge_def taxData_fields slabTax_new Let_def)

text \<open>
  C1. For a gross income of 1,200,000, no deductions and the New regime,
  \<open>calculateTaxPayable\<close> returns a taxable income of 1,150,000, a tax before rebate of
  82,500, no rebate, no surcharge, a cess of 3,300 and a total tax of 85,800.
\<close>

theorem scenario_1200000_new:
  "taxableIncome (calculateTaxPayable 1200000 0 New) = 1150000
   \<and> taxBeforeRebate (calculateTaxPayable 1200000 0 New) = 82500
   \<and> rebate (calculateTaxPayable 1200000 0 New) = 0
   \<and> surcharge (calculateTaxPayable 1200000 0 New) = 0
   \<and> cess (calculateTaxPayable 1200000 0 New) = 3300
   \<and> totalTax (calculateTaxPayable 1200000 0 New) = 85800"
  by (simp add: calculateTaxPayable_def result_fields [OF beforeSurcharge_1200000]
        calculateSurcharge_outside anyWindow_iff rateLoop_table CESS_RATE_def)

text \<open>
  C7. In the New regime the result does not depend on \<open>totalDeductions\<close>: two calls
  with the same gross income and any two deduction values return the same record.
\<close>

theorem new_regime_ignores_deductions:
  "calculateTaxPayable grossIncome d1 New = calculateTaxPayable grossIncome d2 New"
  by (simp add: calculateTaxPayable_def calculateTaxPayableInternal.simps beforeSurcharge_def)

subsection \<open>The rebate and the shape of the result\<close>

lemma beforeSurcharge_components:
  assumes "beforeSurcharge g d regime taxData = (ti, tbr, rb, tar, base)"
  defines "rd \<equiv> if regime = New then newRegime taxData else oldRegime taxData"
  defines "a \<equiv> if truthy (standardDeduction rd) \<and> g > 0
                 then max 0 (g - the (standardDeduction rd)) else g"
  shows "ti = max 0 (if regime = Old then max 0 (a - d) else a)"
    and "tbr = calculateSlabTax ti (slabs rd)"
    and "rb = (if truthy (rebateLimit rd) \<and> ti \<le> the (rebateLimit rd)
                  \<and> truthy (rebateAmount rd)
               then min tbr (the (rebateAmount rd)) else 0)"
    and "tar = max 0 (tbr - rb)"
    and "base = (if regime = Old then g else a)"
  using assms(1) unfolding beforeSurcharge_def Let_def rd_def a_def
  by (auto simp only: prod.inject)

lemma regime_fields:
  "truthy (standardDeduction (if regime = New then newRegime taxDataFY2024_25
      else oldRegime taxDataFY2024_25))"
  "the (standardDeduction (if regime = New then newRegime taxDataFY2024_25
      else oldRegime taxDataFY2024_25)) = 50000"
  "truthy (rebateLimit (if regime = New then newRegime taxDataFY2024_25
      else oldRegime taxDataFY2024_25))"
  "truthy (rebateAmount (if regime = New then newRegime taxDataFY2024_25
      else oldRegime taxDataFY2024_25))"
  "the (rebateLimit (if regime = New then newRegime taxDataFY2024_25
      else oldRegime taxDataFY2024_25)) = (if regime = New then 700000 else 500000)"
  "the (rebateAmount (if regime = New then newRegime taxDataFY2024_25
      else oldRegime taxDataFY2024_25)) = (if regime = New then 25000 else 12500)"
  by (simp_all add: taxData_fields)

lemma calculateSlabTax_nonneg: "0 \<le> calculateSlabTax x slabList"
  by (simp add: calculateSlabTax_def)

lemma calculateSurcharge_nonneg: "0 \<le> calculateSurcharge x tbs regime"
  by (simp add: calculateSurcharge.simps Let_def)

lemma beforeSurcharge_nonneg:
  assumes "beforeSurcharge g d regime taxDataFY2024_25 = (ti, tbr, rb, tar, base)"
  shows "0 \<le> ti" "0 \<le> tbr" "0 \<le> rb" "0 \<le> tar"
proof -
  note c = beforeSurcharge_components [OF assms]
  show "0 \<le> ti" by (subst c(1)) simp
  show tbr: "0 \<le> tbr" by (subst c(2)) (rule calculateSlabTax_nonneg)
  show "0 \<le> rb" using tbr by (subst c(3)) (simp add: regime_fields)
  show "0 \<le> tar" by (subst c(4)) simp
qed

lemma beforeSurcharge_600000:
  "beforeSurcharge 600000 0 New taxDataFY2024_25 = (550000, 12500, 12500, 0, 550000)"
  by (simp add: beforeSurcharge_def taxData_fields slabTax_new Let_def)

text \<open>
  C5. The rebate rule: in either regime the rebate is the smaller of the tax before rebate
  and the regime's maximum rebate when the taxable income is at most the regime's rebate
  limit, and 0 otherwise. For a gross income of 600,000 in the New regime the taxable
  income is 550,000, the rebate 12,500, the tax after rebate 0 and the total tax 0.
\<close>

theorem rebate_rule:
  "rebate (calculateTaxPayable g d regime) =
     (let regimeData = (if regime = New then newRegime taxDataFY2024_25
                        else oldRegime taxDataFY2024_25)
      in if taxableIncome (calculateTaxPayable g d regime) \<le> the (rebateLimit regimeData)
         then min (taxBeforeRebate (calculateTaxPayable g d regime))
                (the (rebateAmount regimeData))
         else 0)
   \<and> taxableIncome (calculateTaxPayable 600000 0 New) = 550000
   \<and> rebate (calculateTaxPayable 600000 0 New) = 12500
   \<and> taxAfterRebate (calculateTaxPayable 600000 0 New) = 0
   \<and> totalTax (calculateTaxPayable 600000 0 New) = 0"
proof -
  obtain ti tbr rb tar base
    where b: "beforeSurcharge g d regime taxDataFY2024_25 = (ti, tbr, rb, tar, base)"
    by (cases "beforeSurcharge g d regime taxDataFY2024_25") auto
  have "rb = (if ti \<le> the (rebateLimit (if regime = New then newRegime taxDataFY2024_25
                        else oldRegime taxDataFY2024_25))
              then min tbr (the (rebateAmount (if regime = New then newRegime taxDataFY2024_25
                        else oldRegime taxDataFY2024_25))) else 0)"
    by (subst beforeSurcharge_components(3) [OF b]) (simp only: regime_fields simp_thms)
  then have general: "rebate (calculateTaxPayable g d regime) =
     (let regimeData = (if regime = New then newRegime taxDataFY2024_25
                        else oldRegime taxDataFY2024_25)
      in if taxableIncome (calculateTaxPayable g d regime) \<le> the (rebateLimit regimeData)
         then min (taxBeforeRebate (calculateTaxPayable g d regime))
                (the (rebateAmount regimeData))
         else 0)"
    unfolding calculateTaxPayable_def result_fields [OF b] Let_def .
  have scenario: "taxableIncome (calculateTaxPayable 600000 0 New) = 550000
     \<and> rebate (calculateTaxPayable 600000 0 New) = 12500
     \<and> taxAfterRebate (calculateTaxPayable 600000 0 New) = 0
     \<and> totalTax (calculateTaxPayable 600000 0 New) = 0"
    by (simp add: calculateTaxPayable_def result_fields [OF beforeSurcharge_600000]
          calculateSurcharge.simps)
  from general scenario show ?thesis by (rule conjI)
qed

text \<open>
  C8. The shape of the result: for every gross income, deductions and regime, the eight
  fields of the result are non-negative, and \<open>totalTax\<close> is an integer at distance at
  most one half from \<open>taxBeforeCess + cess\<close>, the sum it rounds.
\<close>

theorem result_shape:
  "0 \<le> taxableIncome (calculateTaxPayable g d regime)
   \<and> 0 \<le> taxBeforeRebate (calculateTaxPayable g d regime)
   \<and> 0 \<le> rebate (calculateTaxPayable g d regime)
   \<and> 0 \<le> taxAfterRebate (calculateTaxPayable g d regime)
   \<and> 0 \<le> surcharge (calculateTaxPayable g d regime)
   \<and> 0 \<le> cess (calculateTaxPayable g d regime)
   \<and> 0 \<le> taxBeforeCess (calculateTaxPayable g d regime)
   \<and> 0 \<le> totalTax (calculateTaxPayable g d regime)
   \<and> (\<exists>k::int. totalTax (calculateTaxPayable g d regime) = of_int k
        \<and> \<bar>of_int k - (taxBeforeCess (calculateTaxPayable g d regime)
                + cess (calculateTaxPayable g d regime))\<bar> \<le> 1/2)"
proof -
  obtain ti tbr rb tar base
    where b: "beforeSurcharge g d regime taxDataFY2024_25 = (ti, tbr, rb, tar, base)"
    by (cases "beforeSurcharge g d regime taxDataFY2024_25") auto
  note nn = beforeSurcharge_nonneg [OF b]
  define s where "s = calculateSurcharge base tar regime"
  have s: "0 \<le> s" by (simp add: s_def calculateSurcharge_nonneg)
  define t where "t = (tar + s) + (tar + s) * CESS_RATE"
  have c: "0 \<le> (tar + s) * CESS_RATE" using nn s by (simp add: CESS_RATE_def)
  then have t: "0 \<le> t" using nn s by (simp add: t_def)
  have "\<bar>Math_round t - t\<bar> \<le> 1/2"
    using Math_round_bounds [of t] by linarith
  moreover have "Math_round t = of_int \<lfloor>t + 1/2\<rfloor>" by (simp add: Math_round_def)
  ultimately have "\<exists>k::int. Math_round t = of_int k \<and> \<bar>of_int k - t\<bar> \<le> 1/2"
    by metis
  with nn s c t Math_round_nonneg [OF t] show ?thesis
    unfolding calculateTaxPayable_def result_fields [OF b] s_def [symmetric] t_def [symmetric]
    by simp
qed

subsection \<open>Zero and negative income\<close>

lemma reliefThresholds_table:
  "reliefThresholds surchargeRatesFY2024_25 = [5000000, 10000000, 20000000, 50000000]"
  by (simp add: surchargeRatesFY2024_25_def)









subsection \<open>The depth of the calls\<close>

declare calculateSurchargeD.simps [simp del] reliefLoopD.simps [simp del]
  calculateTaxPayableInternalD.simps [simp del]

lemma reliefLoopD_outside:
  "\<not> anyWindow x \<Longrightarrow> reliefLoopD n surchargeRatesFY2024_25 x tbs s regime = Some s"
  by (auto simp: anyWindow_def surchargeRatesFY2024_25_def reliefLoopD.simps)

lemma calculateSurchargeD_outside:
  "\<not> anyWindow x \<Longrightarrow>
     calculateSurchargeD n x tbs regime = Some (calculateSurcharge x tbs regime)"
  by (simp add: reliefLoopD_outside reliefLoop_outside calculateSurcharge.simps
        calculateSurchargeD.simps Let_def)

lemma threshold_base:
  "T \<in> {5000000, 10000000, 20000000, 50000000} \<Longrightarrow>
     \<not> anyWindow (snd (snd (snd (snd (beforeSurcharge T 0 regime taxDataFY2024_25)))))"
  by (cases regime)
     (auto simp: beforeSurcharge_threshold_Old beforeSurcharge_threshold_New
        not_anyWindow_thresholds)

lemma internalD_Suc:
  assumes "beforeSurcharge g d regime taxData = (ti, tbr, rb, tar, base)"
    and "calculateSurchargeD n base tar regime = Some (calculateSurcharge base tar regime)"
  shows "calculateTaxPayableInternalD (Suc n) g d regime taxData
           = Some (calculateTaxPayableInternal g d regime taxData)"
  using assms
  by (simp add: calculateTaxPayableInternal.simps calculateTaxPayableInternalD.simps Let_def)

lemma internalD_threshold:
  assumes "T \<in> {5000000, 10000000, 20000000, 50000000}"
  shows "calculateTaxPayableInternalD (Suc n) T 0 regime taxDataFY2024_25
           = Some (calculateTaxPayableInternal T 0 regime taxDataFY2024_25)"
proof -
  obtain ti tbr rb tar base
    where b: "beforeSurcharge T 0 regime taxDataFY2024_25 = (ti, tbr, rb, tar, base)"
    by (cases "beforeSurcharge T 0 regime taxDataFY2024_25") auto
  with threshold_base [OF assms, of regime] have "\<not> anyWindow base" by simp
  then show ?thesis
    by (intro internalD_Suc [OF b] calculateSurchargeD_outside)
qed

lemma reliefLoopD_step:
  "reliefLoopD (Suc n)
     (\<lparr>incomeLimit = Fin T, srate = a, capForSpecialIncome = b, capForNewRegime = c\<rparr> # rest)
     x tbs s regime =
   (if T \<noteq> 0 \<and> T < x \<and> x \<le> T * (105/100)
    then case calculateTaxPayableInternalD (Suc n) T 0 regime taxDataFY2024_25 of
           None \<Rightarrow> None
         | Some onThreshold \<Rightarrow>
             if tbs + s - taxBeforeCess onThreshold > x - T
             then Some (max 0 (s - (tbs + s - taxBeforeCess onThreshold - (x - T))))
             else reliefLoopD (Suc n) rest x tbs s regime
    else reliefLoopD (Suc n) rest x tbs s regime)"
  by (simp add: reliefLoopD.simps Let_def split: option.split)

lemma reliefLoopD_last:
  "reliefLoopD n
     [\<lparr>incomeLimit = Infinity, srate = a, capForSpecialIncome = b, capForNewRegime = c\<rparr>]
     x tbs s regime = Some s"
  by (simp add: reliefLoopD.simps)

lemma reliefLoopD_table:
  "reliefLoopD (Suc n) surchargeRatesFY2024_25 x tbs s regime
     = Some (reliefLoop surchargeRatesFY2024_25 x tbs s regime)"
  unfolding reliefLoop_table
  unfolding surchargeRatesFY2024_25_def reliefLoopD_step reliefLoopD_last
  by (simp add: internalD_threshold taxOnThreshold_def)

lemma calculateSurchargeD_Suc:
  "calculateSurchargeD (Suc n) x tbs regime = Some (calculateSurcharge x tbs regime)"
  by (simp add: reliefLoopD_table calculateSurcharge.simps calculateSurchargeD.simps Let_def)

lemma internalD_two:
  "calculateTaxPayableInternalD (Suc (Suc n)) g d regime taxData
     = Some (calculateTaxPayableInternal g d regime taxData)"
proof -
  obtain ti tbr rb tar base
    where b: "beforeSurcharge g d regime taxData = (ti, tbr, rb, tar, base)"
    by (cases "beforeSurcharge g d regime taxData") auto
  show ?thesis
    by (rule internalD_Suc [OF b calculateSurchargeD_Suc])
qed

lemma windows_disjoint:
  "length (filter (\<lambda>r. inWindow x (incomeLimit r)) surchargeRatesFY2024_25) \<le> 1"
  by (simp add: surchargeRatesFY2024_25_def)

lemma beforeSurcharge_10000100_Old:
  "beforeSurcharge 10000100 0 Old taxDataFY2024_25
     = (9950100, 2797530, 0, 2797530, 10000100)"
  by (simp add: beforeSurcharge_def taxData_fields slabTax_old Let_def)

lemma depth_one_not_enough:
  "calculateTaxPayableInternalD 1 10000100 0 Old taxDataFY2024_25 = None"
proof -
  have "reliefLoopD 0 surchargeRatesFY2024_25 10000100 2797530 s Old = None" for s
    by (simp add: surchargeRatesFY2024_25_def reliefLoopD.simps
          calculateTaxPayableInternalD.simps)
  then have "calculateSurchargeD 0 10000100 2797530 Old = None"
    by (simp add: calculateSurchargeD.simps Let_def)
  then show ?thesis
    using calculateTaxPayableInternalD.simps(2) [of 0 10000100 0 Old taxDataFY2024_25]
    by (simp add: beforeSurcharge_10000100_Old)
qed

text \<open>
  C9. Every call of \<open>calculateTaxPayable\<close> returns, and with no more than two calls of
  \<open>calculateTaxPayableInternal\<close> open at once: counted with any bound \<open>n \<ge> 2\<close> on the
  depth, the computation yields the result. The reason is that the income which the nested
  call at a tier threshold passes to \<open>calculateSurcharge\<close> lies in no relief window; and
  since the windows are disjoint, an income lies in at most one, so that a call makes at
  most one nested tax computation.
\<close>

theorem recursion_depth_two:
  "(2 \<le> n \<longrightarrow>
      calculateTaxPayableInternalD n g d regime taxDataFY2024_25
        = Some (calculateTaxPayable g d regime))
   \<and> (T \<in> set (reliefThresholds surchargeRatesFY2024_25) \<longrightarrow>
        \<not> anyWindow (snd (snd (snd (snd (beforeSurcharge T 0 regime' taxDataFY2024_25))))))
   \<and> length (filter (\<lambda>r. inWindow x (incomeLimit r)) surchargeRatesFY2024_25) \<le> 1"
proof (intro conjI impI)
  assume "2 \<le> n"
  then obtain m where "n = Suc (Suc m)"
    by (metis Suc_le_D numeral_2_eq_2 Suc_le_mono)
  then show "calculateTaxPayableInternalD n g d regime taxDataFY2024_25
      = Some (calculateTaxPayable g d regime)"
    by (simp add: internalD_two calculateTaxPayable_def)
next
  assume "T \<in> set (reliefThresholds surchargeRatesFY2024_25)"
  then have "T \<in> {5000000, 10000000, 20000000, 50000000}"
    by (simp add: reliefThresholds_table)
  then show "\<not> anyWindow (snd (snd (snd (snd (beforeSurcharge T 0 regime' taxDataFY2024_25)))))"
    by (rule threshold_base)
next
  show "length (filter (\<lambda>r. inWindow x (incomeLimit r)) surchargeRatesFY2024_25) \<le> 1"
    by (rule windows_disjoint)
qed

theorem recursion_depth_two_witness:
  "(2::nat) \<le> 2
   \<and> calculateTaxPayableInternalD 2 10000100 0 Old taxDataFY2024_25
       = Some (calculateTaxPayable 10000100 0 Old)
   \<and> 10000000 \<in> set (reliefThresholds surchargeRatesFY2024_25)
   \<and> \<not> anyWindow (snd (snd (snd (snd (beforeSurcharge 10000000 0 Old taxDataFY2024_25)))))
   \<and> length (filter (\<lambda>r. inWindow 10000100 (incomeLimit r)) surchargeRatesFY2024_25) \<le> 1"
  using recursion_depth_two [of 2 10000100 0 Old 10000000 Old 10000100]
  by (simp add: reliefThresholds_table)

text \<open>
  C3 as stated fails: at the threshold 10,000,000 in the Old regime the value compared
  in the relief is 3,077,250, which is the tax after rebate at that gross income,
  2,797,500, plus a surcharge of 279,750.
\<close>

theorem taxOnThreshold_counterexample:
  "10000000 \<in> set (reliefThresholds surchargeRatesFY2024_25)
   \<and> taxOnThreshold 10000000 Old = 3077250
   \<and> taxAfterRebate (calculateTaxPayableInternal 10000000 0 Old taxDataFY2024_25) = 2797500
   \<and> surcharge (calculateTaxPayableInternal 10000000 0 Old taxDataFY2024_25) = 279750"
  by (simp add: reliefThresholds_table taxOnThreshold_Old
        result_fields [OF beforeSurcharge_threshold_Old(2)]
        calculateSurcharge_outside not_anyWindow_thresholds rateLoop_table)

text \<open>
  C3, as amended. The value bound to \<open>taxOnThreshold\<close> is the field \<open>taxBeforeCess\<close> of
  \<open>calculateTaxPayableInternal(T, 0, regime)\<close>: the tax after rebate at the gross income
  \<open>T\<close> plus the surcharge of that call. The nested call does run \<open>calculateSurcharge\<close>;
  its income (\<open>T\<close> in the Old regime, \<open>T - 50000\<close> in the New one) lies in no relief
  window, so that surcharge is the tax after rebate times the rate of the tier, without
  relief, and the nested call makes no further nested call (it completes at depth 1).
  At \<open>T = 5,000,000\<close> the rate of the tier is 0 and the surcharge part vanishes.
\<close>

theorem taxOnThreshold_is_taxBeforeCess:
  assumes "T \<in> set (reliefThresholds surchargeRatesFY2024_25)"
  shows "taxOnThreshold T regime
           = taxAfterRebate (calculateTaxPayableInternal T 0 regime taxDataFY2024_25)
             + surcharge (calculateTaxPayableInternal T 0 regime taxDataFY2024_25)
   \<and> surcharge (calculateTaxPayableInternal T 0 regime taxDataFY2024_25)
       = taxAfterRebate (calculateTaxPayableInternal T 0 regime taxDataFY2024_25)
         * rateLoop surchargeRatesFY2024_25 (if regime = Old then T else T - 50000) regime 0
   \<and> calculateTaxPayableInternalD 1 T 0 regime taxDataFY2024_25
       = Some (calculateTaxPayableInternal T 0 regime taxDataFY2024_25)
   \<and> surcharge (calculateTaxPayableInternal 5000000 0 regime taxDataFY2024_25) = 0"
proof -
  from assms have T: "T \<in> {5000000, 10000000, 20000000, 50000000}"
    by (simp add: reliefThresholds_table)
  obtain ti tbr rb tar base
    where b: "beforeSurcharge T 0 regime taxDataFY2024_25 = (ti, tbr, rb, tar, base)"
    by (cases "beforeSurcharge T 0 regime taxDataFY2024_25") auto
  have base: "base = (if regime = Old then T else T - 50000)" and tar: "0 < tar"
    using T b by (cases regime;
      auto simp: beforeSurcharge_threshold_Old beforeSurcharge_threshold_New)+
  have out: "\<not> anyWindow base"
    using threshold_base [OF T, of regime] b by simp
  have s: "calculateSurcharge base tar regime
      = tar * rateLoop surchargeRatesFY2024_25 base regime 0"
    using out tar by (rule calculateSurcharge_outside)
  have one: "taxOnThreshold T regime
           = taxAfterRebate (calculateTaxPayableInternal T 0 regime taxDataFY2024_25)
             + surcharge (calculateTaxPayableInternal T 0 regime taxDataFY2024_25)"
    by (simp add: taxOnThreshold_def result_fields [OF b])
  have two: "surcharge (calculateTaxPayableInternal T 0 regime taxDataFY2024_25)
       = taxAfterRebate (calculateTaxPayableInternal T 0 regime taxDataFY2024_25)
         * rateLoop surchargeRatesFY2024_25 (if regime = Old then T else T - 50000) regime 0"
    using s by (simp add: result_fields [OF b] base)
  have three: "calculateTaxPayableInternalD 1 T 0 regime taxDataFY2024_25
       = Some (calculateTaxPayableInternal T 0 regime taxDataFY2024_25)"
    using internalD_threshold [OF T, of 0 regime] by simp
  have four: "surcharge (calculateTaxPayableInternal 5000000 0 regime taxDataFY2024_25) = 0"
    by (cases regime)
       (simp_all add: result_fields(5) [OF beforeSurcharge_threshold_Old(1)]
          result_fields(5) [OF beforeSurcharge_threshold_New(1)]
          calculateSurcharge_outside not_anyWindow_thresholds rateLoop_table)
  from one two three four show ?thesis by simp
qed

theorem taxOnThreshold_is_taxBeforeCess_witness:
  "10000000 \<in> set (reliefThresholds surchargeRatesFY2024_25)
   \<and> taxOnThreshold 10000000 Old
       = taxAfterRebate (calculateTaxPayableInternal 10000000 0 Old taxDataFY2024_25)
         + surcharge (calculateTaxPayableInternal 10000000 0 Old taxDataFY2024_25)
   \<and> surcharge (calculateTaxPayableInternal 10000000 0 Old taxDataFY2024_25)
       = taxAfterRebate (calculateTaxPayableInternal 10000000 0 Old taxDataFY2024_25)
         * rateLoop surchargeRatesFY2024_25 10000000 Old 0
   \<and> calculateTaxPayableInternalD 1 10000000 0 Old taxDataFY2024_25
       = Some (calculateTaxPayableInternal 10000000 0 Old taxDataFY2024_25)"
  using taxOnThreshold_is_taxBeforeCess [of 10000000 Old]
  by (simp add: reliefThresholds_table)

subsection \<open>Monotonicity in the tax before surcharge\<close>

lemma slabTax_old_mono:
  "x \<le> y \<Longrightarrow> calculateSlabTax x (slabs (oldRegime taxDataFY2024_25))
     \<le> calculateSlabTax y (slabs (oldRegime taxDataFY2024_25))"
  unfolding slabTax_old by (auto split: if_splits simp: field_simps)

lemma withSurcharge_mono:
  assumes "0 \<le> a" "a \<le> b"
  shows "a + calculateSurcharge x a regime \<le> b + calculateSurcharge x b regime"
proof -
  define r where "r = rateLoop surchargeRatesFY2024_25 x regime 0"
  have "0 \<le> r" by (simp add: r_def rateLoop_nonneg)
  then have m: "a * (1 + r) \<le> b * (1 + r)"
    using assms by (intro mult_right_mono) simp_all
  from assms have b: "0 \<le> b" by simp
  show ?thesis
  proof (cases "anyWindow x")
    case False
    then show ?thesis
      using m by (simp add: withSurcharge_outside assms(1) b r_def)
  next
    case True
    then have "\<exists>T\<in>{5000000, 10000000, 20000000, 50000000}. T < x \<and> x \<le> T * (105/100)"
      by (simp add: anyWindow_iff)
    then obtain T where T: "T \<in> {5000000, 10000000, 20000000, 50000000}"
      "T < x" "x \<le> T * (105/100)"
      by blast
    define c where "c = taxOnThreshold T regime + (x - T)"
    have "min (a * (1 + r)) (max a c) \<le> min (b * (1 + r)) (max b c)"
      using m assms(2) by (auto simp: min_def max_def)
    then show ?thesis
      by (simp add: withSurcharge_window [OF T assms(1)] withSurcharge_window [OF T b]
            r_def c_def)
  qed
qed

lemma totalTax_mono:
  assumes "beforeSurcharge g1 d1 regime taxDataFY2024_25 = (ti1, tbr1, rb1, tar1, base)"
    and "beforeSurcharge g2 d2 regime taxDataFY2024_25 = (ti2, tbr2, rb2, tar2, base)"
    and "tar1 \<le> tar2"
  shows "totalTax (calculateTaxPayable g1 d1 regime) \<le> totalTax (calculateTaxPayable g2 d2 regime)"
proof -
  define u where "u = tar1 + calculateSurcharge base tar1 regime"
  define v where "v = tar2 + calculateSurcharge base tar2 regime"
  have "0 \<le> tar1" using beforeSurcharge_nonneg(4) [OF assms(1)] .
  then have "u \<le> v"
    unfolding u_def v_def using assms(3) by (rule withSurcharge_mono)
  then have "u + u * CESS_RATE \<le> v + v * CESS_RATE"
    by (simp add: CESS_RATE_def)
  then have "(tar1 + calculateSurcharge base tar1 regime)
        + (tar1 + calculateSurcharge base tar1 regime) * CESS_RATE
      \<le> (tar2 + calculateSurcharge base tar2 regime)
        + (tar2 + calculateSurcharge base tar2 regime) * CESS_RATE"
    by (simp only: u_def v_def)
  then show ?thesis
    unfolding calculateTaxPayable_def result_fields(8) [OF assms(1)]
      result_fields(8) [OF assms(2)]
    by (rule Math_round_mono)
qed

lemma taxAfterRebate_old:
  assumes "beforeSurcharge g d Old taxDataFY2024_25 = (ti, tbr, rb, tar, base)"
  shows "tar = (if ti \<le> 500000 then 0
                else calculateSlabTax ti (slabs (oldRegime taxDataFY2024_25)))"
    and "base = g"
    and "ti = max 0 ((if 0 < g then max 0 (g - 50000) else g) - d)"
proof -
  note c = beforeSurcharge_components [OF assms]
  have tbr: "tbr = calculateSlabTax ti (slabs (oldRegime taxDataFY2024_25))"
    using c(2) by simp
  have rb: "rb = (if ti \<le> 500000 then min tbr 12500 else 0)"
    by (subst c(3)) (simp add: taxData_fields)
  have "0 \<le> tbr" by (simp add: tbr calculateSlabTax_nonneg)
  moreover have "ti \<le> 500000 \<Longrightarrow> tbr \<le> 12500"
    by (simp add: tbr slabTax_old)
  ultimately show "tar = (if ti \<le> 500000 then 0
                else calculateSlabTax ti (slabs (oldRegime taxDataFY2024_25)))"
    by (subst c(4)) (auto simp: rb tbr [symmetric])
  show "base = g" using c(5) by simp
  show "ti = max 0 ((if 0 < g then max 0 (g - 50000) else g) - d)"
    by (subst c(1)) (simp add: taxData_fields)
qed

text \<open>
  C10. In the Old regime, for a fixed gross income, the total tax does not increase when
  the deductions increase.
\<close>

theorem old_regime_deductions_monotone:
  assumes "d1 \<le> d2"
  shows "totalTax (calculateTaxPayable g d2 Old) \<le> totalTax (calculateTaxPayable g d1 Old)"
proof -
  obtain ti1 tbr1 rb1 tar1 base1
    where b1: "beforeSurcharge g d1 Old taxDataFY2024_25 = (ti1, tbr1, rb1, tar1, base1)"
    by (cases "beforeSurcharge g d1 Old taxDataFY2024_25") auto
  obtain ti2 tbr2 rb2 tar2 base2
    where b2: "beforeSurcharge g d2 Old taxDataFY2024_25 = (ti2, tbr2, rb2, tar2, base2)"
    by (cases "beforeSurcharge g d2 Old taxDataFY2024_25") auto
  note t1 = taxAfterRebate_old [OF b1] and t2 = taxAfterRebate_old [OF b2]
  have ti: "ti2 \<le> ti1"
    using assms unfolding t1(3) t2(3) by (intro max.mono) simp_all
  have "calculateSlabTax ti2 (slabs (oldRegime taxDataFY2024_25))
      \<le> calculateSlabTax ti1 (slabs (oldRegime taxDataFY2024_25))"
    using ti by (rule slabTax_old_mono)
  moreover have "0 \<le> calculateSlabTax ti1 (slabs (oldRegime taxDataFY2024_25))"
    by (rule calculateSlabTax_nonneg)
  ultimately have tar: "tar2 \<le> tar1"
    using ti unfolding t1(1) t2(1) by auto
  from b1 b2 have "beforeSurcharge g d1 Old taxDataFY2024_25 = (ti1, tbr1, rb1, tar1, g)"
    "beforeSurcharge g d2 Old taxDataFY2024_25 = (ti2, tbr2, rb2, tar2, g)"
    by (simp_all add: t1(2) t2(2))
  then show ?thesis
    using tar by (intro totalTax_mono)
qed

theorem old_regime_deductions_monotone_witness:
  "(100000::rat) \<le> 250000
   \<and> totalTax (calculateTaxPayable 1200000 250000 Old)
       \<le> totalTax (calculateTaxPayable 1200000 100000 Old)"
  using old_regime_deductions_monotone [of 100000 250000 1200000] by simp

subsection \<open>Across a tier threshold\<close>




text \<open>
  The relief compares with the tax at the threshold for deductions 0, whatever the
  deductions of the call. In the Old regime with deductions of 1,000,000 the tax before
  surcharge stays below that value, no relief applies just above 5,000,000, and the total
  tax rises by 103,774 over an increment of 100.
\<close>

lemma beforeSurcharge_with_deductions:
  "beforeSurcharge 5000000 1000000 Old taxDataFY2024_25
     = (3950000, 997500, 0, 997500, 5000000)"
  "beforeSurcharge 5000100 1000000 Old taxDataFY2024_25
     = (3950100, 997530, 0, 997530, 5000100)"
  by (simp_all add: beforeSurcharge_def taxData_fields slabTax_old Let_def)

lemma no_relief_with_deductions:
  "totalTax (calculateTaxPayable 5000000 1000000 Old) = 1037400
   \<and> totalTax (calculateTaxPayable 5000100 1000000 Old) = 1141174"
proof -
  have a: "997500 + calculateSurcharge 5000000 997500 Old = 997500"
    by (simp add: calculateSurcharge_outside not_anyWindow_thresholds rateLoop_table)
  have b: "997530 + calculateSurcharge 5000100 997530 Old = 1097283"
    using withSurcharge_window [of 5000000 5000100 997530 Old]
    by (simp add: rateLoop_table taxOnThreshold_Old)
  have r: "Math_round (1097283 + 1097283 * CESS_RATE) = 1141174"
    using Math_round_eqI [of 1141174 "1097283 + 1097283 * CESS_RATE"]
    by (simp add: CESS_RATE_def)
  have s: "Math_round (997500 + 997500 * CESS_RATE) = 1037400"
    by (simp add: CESS_RATE_def)
  show ?thesis
    by (simp only: calculateTaxPayable_def
          result_fields(8) [OF beforeSurcharge_with_deductions(1)]
          result_fields(8) [OF beforeSurcharge_with_deductions(2)] a b r s simp_thms)
qed



subsection \<open>The Old regime is monotone in the gross income\<close>

lemma withSurcharge_le:
  assumes "0 \<le> a"
  shows "a + calculateSurcharge x a regime \<le> a * (1 + rateLoop surchargeRatesFY2024_25 x regime 0)"
proof (cases "anyWindow x")
  case False
  then show ?thesis by (simp add: withSurcharge_outside assms)
next
  case True
  then have "\<exists>T\<in>{5000000, 10000000, 20000000, 50000000}. T < x \<and> x \<le> T * (105/100)"
    by (simp add: anyWindow_iff)
  then obtain T where T: "T \<in> {5000000, 10000000, 20000000, 50000000}"
    "T < x" "x \<le> T * (105/100)"
    by blast
  show ?thesis
    unfolding withSurcharge_window [OF T assms] by (rule min.cobounded1)
qed

lemma rateLoop_mono:
  "x \<le> y \<Longrightarrow> rateLoop surchargeRatesFY2024_25 x regime 0
     \<le> rateLoop surchargeRatesFY2024_25 y regime 0"
  by (auto simp: rateLoop_table)

lemma taxAfterRebate_old_mono:
  assumes "beforeSurcharge g1 d1 Old taxDataFY2024_25 = (ti1, tbr1, rb1, tar1, base1)"
    and "beforeSurcharge g2 d2 Old taxDataFY2024_25 = (ti2, tbr2, rb2, tar2, base2)"
    and "ti1 \<le> ti2"
  shows "tar1 \<le> tar2"
proof -
  have "calculateSlabTax ti1 (slabs (oldRegime taxDataFY2024_25))
      \<le> calculateSlabTax ti2 (slabs (oldRegime taxDataFY2024_25))"
    using assms(3) by (rule slabTax_old_mono)
  moreover have "0 \<le> calculateSlabTax ti2 (slabs (oldRegime taxDataFY2024_25))"
    by (rule calculateSlabTax_nonneg)
  ultimately show ?thesis
    using assms(3)
    unfolding taxAfterRebate_old(1) [OF assms(1)] taxAfterRebate_old(1) [OF assms(2)]
    by auto
qed

lemma taxableIncome_old_mono:
  assumes "beforeSurcharge g1 d1 Old taxDataFY2024_25 = (ti1, tbr1, rb1, tar1, base1)"
    and "beforeSurcharge g2 d2 Old taxDataFY2024_25 = (ti2, tbr2, rb2, tar2, base2)"
    and "g1 \<le> g2" "d2 \<le> d1"
  shows "ti1 \<le> ti2"
proof -
  have "(if 0 < g1 then max 0 (g1 - 50000) else g1) \<le> (if 0 < g2 then max 0 (g2 - 50000) else g2)"
    using assms(3) by auto
  then show ?thesis
    using assms(4)
    unfolding taxAfterRebate_old(3) [OF assms(1)] taxAfterRebate_old(3) [OF assms(2)]
    by (intro max.mono) simp_all
qed

lemma taxOnThreshold_old_rate:
  assumes "T \<in> {5000000, 10000000, 20000000, 50000000}"
    and "beforeSurcharge T 0 Old taxDataFY2024_25 = (ti, tbr, rb, tar, base)"
  shows "taxOnThreshold T Old = tar * (1 + rateLoop surchargeRatesFY2024_25 T Old 0)"
proof -
  have base: "base = T" by (rule taxAfterRebate_old(2) [OF assms(2)])
  have out: "\<not> anyWindow T" using assms(1) by (auto simp: not_anyWindow_thresholds)
  have "0 \<le> tar" by (rule beforeSurcharge_nonneg(4) [OF assms(2)])
  then show ?thesis
    by (simp add: taxOnThreshold_def result_fields(6) [OF assms(2)] base
          withSurcharge_outside [OF out])
qed

lemma old_regime_income_monotone:
  assumes "g1 \<le> g2" "0 \<le> d"
  shows "totalTax (calculateTaxPayable g1 d Old) \<le> totalTax (calculateTaxPayable g2 d Old)"
proof -
  obtain ti1 tbr1 rb1 a1 base1
    where b1: "beforeSurcharge g1 d Old taxDataFY2024_25 = (ti1, tbr1, rb1, a1, base1)"
    by (cases "beforeSurcharge g1 d Old taxDataFY2024_25") auto
  obtain ti2 tbr2 rb2 a2 base2
    where b2: "beforeSurcharge g2 d Old taxDataFY2024_25 = (ti2, tbr2, rb2, a2, base2)"
    by (cases "beforeSurcharge g2 d Old taxDataFY2024_25") auto
  have base: "base1 = g1" "base2 = g2"
    by (rule taxAfterRebate_old(2) [OF b1], rule taxAfterRebate_old(2) [OF b2])
  have a0: "0 \<le> a1" "0 \<le> a2"
    by (rule beforeSurcharge_nonneg(4) [OF b1], rule beforeSurcharge_nonneg(4) [OF b2])
  have a: "a1 \<le> a2"
    by (rule taxAfterRebate_old_mono [OF b1 b2 taxableIncome_old_mono [OF b1 b2 assms(1)]])
       simp
  define r1 where "r1 = rateLoop surchargeRatesFY2024_25 g1 Old 0"
  define r2 where "r2 = rateLoop surchargeRatesFY2024_25 g2 Old 0"
  have r: "0 \<le> r1" "r1 \<le> r2"
    by (simp_all add: r1_def r2_def rateLoop_nonneg rateLoop_mono assms(1))
  have up1: "a1 + calculateSurcharge g1 a1 Old \<le> a1 * (1 + r1)"
    unfolding r1_def by (rule withSurcharge_le [OF a0(1)])
  have "a1 * (1 + r1) \<le> a2 * (1 + r2)"
    using a a0 r by (intro mult_mono) simp_all
  with up1 have first: "a1 + calculateSurcharge g1 a1 Old \<le> a2 * (1 + r2)"
    by simp
  have main: "a1 + calculateSurcharge g1 a1 Old \<le> a2 + calculateSurcharge g2 a2 Old"
  proof (cases "anyWindow g2")
    case False
    then show ?thesis
      using first by (simp add: withSurcharge_outside a0(2) r2_def)
  next
    case True
    then have "\<exists>T\<in>{5000000, 10000000, 20000000, 50000000}. T < g2 \<and> g2 \<le> T * (105/100)"
      by (simp add: anyWindow_iff)
    then obtain T where T: "T \<in> {5000000, 10000000, 20000000, 50000000}"
      "T < g2" "g2 \<le> T * (105/100)"
      by blast
    have second: "a1 + calculateSurcharge g1 a1 Old \<le> max a2 (taxOnThreshold T Old + (g2 - T))"
    proof (cases "g1 \<le> T")
      case True
      obtain tiT tbrT rbT aT baseT
        where bT: "beforeSurcharge T 0 Old taxDataFY2024_25 = (tiT, tbrT, rbT, aT, baseT)"
        by (cases "beforeSurcharge T 0 Old taxDataFY2024_25") auto
      have aT: "a1 \<le> aT"
        by (rule taxAfterRebate_old_mono
              [OF b1 bT taxableIncome_old_mono [OF b1 bT True assms(2)]])
      have "r1 \<le> rateLoop surchargeRatesFY2024_25 T Old 0"
        unfolding r1_def using True by (rule rateLoop_mono)
      with aT a0(1) r(1)
      have "a1 * (1 + r1) \<le> aT * (1 + rateLoop surchargeRatesFY2024_25 T Old 0)"
        by (intro mult_mono) simp_all
      also have "\<dots> = taxOnThreshold T Old"
        by (rule taxOnThreshold_old_rate [OF T(1) bT, symmetric])
      finally have "a1 + calculateSurcharge g1 a1 Old \<le> taxOnThreshold T Old"
        using up1 by simp
      then show ?thesis using T(2) by simp
    next
      case False
      then have w: "T < g1" "g1 \<le> T * (105/100)"
        using assms(1) T(3) by simp_all
      have "a1 + calculateSurcharge g1 a1 Old \<le> max a1 (taxOnThreshold T Old + (g1 - T))"
        unfolding withSurcharge_window [OF T(1) w a0(1)] by (rule min.cobounded2)
      also have "\<dots> \<le> max a2 (taxOnThreshold T Old + (g2 - T))"
        using a assms(1) by (intro max.mono) simp_all
      finally show ?thesis .
    qed
    show ?thesis
      unfolding withSurcharge_window [OF T a0(2)]
      using first second by (simp add: r2_def)
  qed
  define u where "u = a1 + calculateSurcharge g1 a1 Old"
  define v where "v = a2 + calculateSurcharge g2 a2 Old"
  from main have "u \<le> v" by (simp add: u_def v_def)
  then have "u + u * CESS_RATE \<le> v + v * CESS_RATE"
    by (simp add: CESS_RATE_def field_simps)
  then have "Math_round (u + u * CESS_RATE) \<le> Math_round (v + v * CESS_RATE)"
    by (rule Math_round_mono)
  then show ?thesis
    unfolding calculateTaxPayable_def result_fields(8) [OF b1] result_fields(8) [OF b2]
      base u_def v_def .
qed

subsection \<open>The New regime is not\<close>

lemma beforeSurcharge_10050000_New:
  "beforeSurcharge 10050000 0 New taxDataFY2024_25
     = (10000000, 2700000, 0, 2700000, 10000000)"
  "beforeSurcharge 10050100 0 New taxDataFY2024_25
     = (10000100, 2700030, 0, 2700030, 10000100)"
  by (simp_all add: beforeSurcharge_def taxData_fields slabTax_new Let_def)

text \<open>
  C4, monotonicity in the gross income, fails on the code. In the New regime a gross
  income of 10,050,000 has a total tax of 3,088,800 and the larger gross income of
  10,050,100 has the smaller total tax of 3,071,744: the relief compares with the tax at
  a gross income of 10,000,000, although the threshold is crossed by the income after
  standard deduction, which is 10,000,000 at a gross income of 10,050,000. The Old regime,
  where the two incomes are the same, is monotone (\<open>old_regime_income_monotone\<close>).
\<close>

theorem total_tax_drops_new_regime:
  "(10050000::rat) \<le> 10050100
   \<and> totalTax (calculateTaxPayable 10050000 0 New) = 3088800
   \<and> totalTax (calculateTaxPayable 10050100 0 New) = 3071744"
proof -
  have a: "2700000 + calculateSurcharge 10000000 2700000 New = 2970000"
    by (simp add: calculateSurcharge_outside not_anyWindow_thresholds rateLoop_table)
  have b: "2700030 + calculateSurcharge 10000100 2700030 New = 2953600"
    using withSurcharge_window [of 10000000 10000100 2700030 New]
    by (simp add: rateLoop_table taxOnThreshold_New)
  show ?thesis
    by (simp add: calculateTaxPayable_def result_fields(8) [OF beforeSurcharge_10050000_New(1)]
        result_fields(8) [OF beforeSurcharge_10050000_New(2)] a b CESS_RATE_def)
qed

end
